theory Spec2Isabelle
  imports Main "HOL-Library.Sublist"
begin

section \<open>The container lifecycle controller of drun/run.py\<close>

text \<open>
  The controller of \<^verbatim>\<open>drun/run.py\<close> is a class \<^verbatim>\<open>Docker\<close> whose methods
  talk to the container engine through \<^verbatim>\<open>subprocess.run\<close> and to the file
  system through \<^verbatim>\<open>pathlib\<close>, \<^verbatim>\<open>shutil\<close> and \<^verbatim>\<open>os\<close>. The model keeps
  the methods as they are written and makes the outside world explicit:
  every effectful call is appended to a trace, every printed line to an
  output, and the answer of the outside world to a call is read from an
  environment that sees the calls made so far.
\<close>

subsection \<open>Data model\<close>

text \<open>The enumeration \<^verbatim>\<open>Op\<close>, in the order of the source.\<close>

datatype Op = CREATE | START | STOP | RESTART | CLEAN | RESET | NUKE

text \<open>
  The fields of a \<^verbatim>\<open>Docker\<close> object once \<^verbatim>\<open>__init__\<close> has run.
  \<^verbatim>\<open>script\<close> may be \<^verbatim>\<open>None\<close>; \<^verbatim>\<open>dir\<close> and \<^verbatim>\<open>df\<close> are the project
  directory and the Dockerfile path, as path strings.
\<close>

record Docker =
  name :: string
  op :: Op
  user :: string
  pwd :: string
  ws :: string
  script :: "string option"
  root :: bool
  debug :: int
  dir :: string
  df :: string
  ports :: "(int \<times> int) list"

text \<open>
  Exceptions carry the text that \<^verbatim>\<open>str(e)\<close> gives. The handlers of the
  source tell three classes apart: \<^verbatim>\<open>subprocess.CalledProcessError\<close>, any
  other subclass of \<^verbatim>\<open>Exception\<close>, and what only a bare \<^verbatim>\<open>except:\<close>
  catches (\<^verbatim>\<open>KeyboardInterrupt\<close>, \<^verbatim>\<open>SystemExit\<close>).
\<close>

datatype exn =
  CalledProcessError string
| OtherException string
| BaseOnly string

fun str_exn :: "exn \<Rightarrow> string" where
  "str_exn (CalledProcessError m) = m"
| "str_exn (OtherException m) = m"
| "str_exn (BaseOnly m) = m"

fun is_Exception :: "exn \<Rightarrow> bool" where
  "is_Exception (BaseOnly m) = False"
| "is_Exception e = True"

fun is_CalledProcessError :: "exn \<Rightarrow> bool" where
  "is_CalledProcessError (CalledProcessError m) = True"
| "is_CalledProcessError e = False"

text \<open>
  The effectful calls the controller makes. \<^verbatim>\<open>Subprocess cmd check\<close> is
  \<^verbatim>\<open>subprocess.run(cmd, check=check)\<close>.
\<close>

datatype call =
  Mkdir string
| Copy2 string string
| Makedirs string
| Subprocess "string list" bool

text \<open>
  The outside world. Each answer may depend on the calls made so far.
  \<^verbatim>\<open>path_exists\<close> answers \<^verbatim>\<open>Path.exists()\<close>; \<^verbatim>\<open>fs_raises\<close> says whether
  a file-system call raises; \<^verbatim>\<open>proc\<close> is the outcome of
  \<^verbatim>\<open>subprocess.run\<close>: the captured standard output, or the exception
  raised. \<^verbatim>\<open>TMPL\<close> is the module-level template directory, and
  \<^verbatim>\<open>py_eval\<close> stands for Python's \<^verbatim>\<open>eval\<close> in the scope of \<^verbatim>\<open>run\<close>
  (its arguments: the text, \<^verbatim>\<open>exists\<close> and \<^verbatim>\<open>running\<close>).
\<close>

record env =
  path_exists :: "call list \<Rightarrow> string \<Rightarrow> bool"
  fs_raises :: "call list \<Rightarrow> call \<Rightarrow> exn option"
  proc :: "call list \<Rightarrow> string list \<Rightarrow> bool \<Rightarrow> exn + string"
  TMPL :: string
  py_eval :: "string \<Rightarrow> bool \<Rightarrow> bool \<Rightarrow> string"

record st =
  trace :: "call list"
  out :: "string list"

type_synonym 'a action = "st \<Rightarrow> (exn + 'a) \<times> st"

subsection \<open>Sequencing, raising and handling\<close>

definition return :: "'a \<Rightarrow> 'a action" where
  "return x s = (Inr x, s)"

definition bind :: "'a action \<Rightarrow> ('a \<Rightarrow> 'b action) \<Rightarrow> 'b action" where
  "bind m f s = (case m s of (Inl e, s') \<Rightarrow> (Inl e, s') | (Inr x, s') \<Rightarrow> f x s')"

text \<open>A bare \<^verbatim>\<open>except:\<close> catches everything.\<close>

definition try_except_all :: "'a action \<Rightarrow> (exn \<Rightarrow> 'a action) \<Rightarrow> 'a action" where
  "try_except_all m h s = (case m s of (Inl e, s') \<Rightarrow> h e s' | (Inr x, s') \<Rightarrow> (Inr x, s'))"

text \<open>\<^verbatim>\<open>except Exception as e:\<close> lets the other exceptions through.\<close>

definition try_except_Exception :: "'a action \<Rightarrow> (exn \<Rightarrow> 'a action) \<Rightarrow> 'a action" where
  "try_except_Exception m h s =
     (case m s of
        (Inl e, s') \<Rightarrow> if is_Exception e then h e s' else (Inl e, s')
      | (Inr x, s') \<Rightarrow> (Inr x, s'))"

definition print :: "string \<Rightarrow> unit action" where
  "print line s = (Inr (), s\<lparr>out := out s @ [line]\<rparr>)"

definition subprocess_run :: "env \<Rightarrow> string list \<Rightarrow> bool \<Rightarrow> string action" where
  "subprocess_run E cmd check s =
     (proc E (trace s) cmd check, s\<lparr>trace := trace s @ [Subprocess cmd check]\<rparr>)"

definition fs_call :: "env \<Rightarrow> call \<Rightarrow> unit action" where
  "fs_call E c s =
     (case fs_raises E (trace s) c of
        Some e \<Rightarrow> (Inl e, s\<lparr>trace := trace s @ [c]\<rparr>)
      | None \<Rightarrow> (Inr (), s\<lparr>trace := trace s @ [c]\<rparr>))"

definition exists_path :: "env \<Rightarrow> string \<Rightarrow> bool action" where
  "exists_path E p s = (Inr (path_exists E (trace s) p), s)"

subsection \<open>Strings\<close>

text \<open>\<^verbatim>\<open>str\<close> of a Python integer, as the f-strings use it.\<close>

definition digit_char :: "nat \<Rightarrow> char" where
  "digit_char d = ''0123456789'' ! d"

function str_nat :: "nat \<Rightarrow> string" where
  "str_nat n = (if n < 10 then [digit_char n] else str_nat (n div 10) @ [digit_char (n mod 10)])"
  by pat_completeness auto
termination
  by (relation "measure (\<lambda>n. n)") auto

declare str_nat.simps [simp del]

definition str_int :: "int \<Rightarrow> string" where
  "str_int i = (if i < 0 then CHR ''-'' # str_nat (nat (- i)) else str_nat (nat i))"

text \<open>The apostrophe, for the texts that contain one.\<close>

definition sq :: string where
  "sq = [CHR 0x27]"

text \<open>\<^verbatim>\<open>a in b\<close> on strings: \<^verbatim>\<open>a\<close> occurs in \<^verbatim>\<open>b\<close> as a substring.\<close>

fun starts_with :: "string \<Rightarrow> string \<Rightarrow> bool" where
  "starts_with [] ys = True"
| "starts_with (x # xs) [] = False"
| "starts_with (x # xs) (y # ys) = (x = y \<and> starts_with xs ys)"

fun str_in :: "string \<Rightarrow> string \<Rightarrow> bool" where
  "str_in xs [] = (xs = [])"
| "str_in xs (y # ys) = (starts_with xs (y # ys) \<or> str_in xs ys)"

text \<open>The truth value of \<^verbatim>\<open>self.script\<close>: \<^verbatim>\<open>None\<close> and the empty string are false.\<close>

fun truthy :: "string option \<Rightarrow> bool" where
  "truthy None = False"
| "truthy (Some s) = (s \<noteq> [])"

subsection \<open>The methods of Docker\<close>

definition dbg :: "Docker \<Rightarrow> int \<Rightarrow> string \<Rightarrow> unit action" where
  "dbg D lvl msg =
     (if debug D \<ge> lvl then print (''[DEBUG-'' @ str_int lvl @ ''] '' @ msg) else return ())"

definition setup' :: "env \<Rightarrow> Docker \<Rightarrow> unit action" where
  "setup' E D =
     bind (exists_path E (dir D)) (\<lambda>d.
     bind (if \<not> d then fs_call E (Mkdir (dir D)) else return ()) (\<lambda>_.
     bind (exists_path E (df D)) (\<lambda>f.
       if \<not> f then
         bind (fs_call E (Copy2 (TMPL E @ ''/Dockerfile.template'') (df D))) (\<lambda>_.
         dbg D 2 (''Created Dockerfile in '' @ dir D))
       else return ())))"

definition exists_cmd :: "Docker \<Rightarrow> string list" where
  "exists_cmd D =
     [''docker'', ''ps'', ''-a'', ''--filter'', ''name=^'' @ name D @ ''$'',
      ''--format'', ''{{.Names}}'']"

definition running_cmd :: "Docker \<Rightarrow> string list" where
  "running_cmd D =
     [''docker'', ''ps'', ''--filter'', ''name=^'' @ name D @ ''$'',
      ''--format'', ''{{.Names}}'']"

definition exists :: "env \<Rightarrow> Docker \<Rightarrow> bool action" where
  "exists E D =
     try_except_all
       (bind (subprocess_run E (exists_cmd D) False) (\<lambda>stdout.
        return (str_in (name D) stdout)))
       (\<lambda>e. return False)"

definition running :: "env \<Rightarrow> Docker \<Rightarrow> bool action" where
  "running E D =
     try_except_all
       (bind (subprocess_run E (running_cmd D) False) (\<lambda>stdout.
        return (str_in (name D) stdout)))
       (\<lambda>e. return False)"

definition build_cmd :: "Docker \<Rightarrow> string list" where
  "build_cmd D =
     [''docker'', ''build'',
      ''--build-arg'', ''USERNAME='' @ user D,
      ''--build-arg'', ''USER_PASSWORD='' @ pwd D,
      ''-t'', name D, ''-f'', df D, dir D]"

definition build :: "env \<Rightarrow> Docker \<Rightarrow> bool action" where
  "build E D =
     bind (dbg D 2 (''Building from '' @ df D @ ''...'')) (\<lambda>_.
     try_except_Exception
       (bind (subprocess_run E (build_cmd D) True) (\<lambda>_.
        bind (dbg D 2 ''Build OK'') (\<lambda>_.
        return True)))
       (\<lambda>e. bind (print (''Build failed: '' @ str_exn e)) (\<lambda>_. return False)))"

definition run_cmd :: "Docker \<Rightarrow> string list" where
  "run_cmd D =
     ([''docker'', ''run'', ''-d'', ''--name'', name D]
      @ concat (map (\<lambda>(h, c). [''-p'', str_int h @ '':'' @ str_int c]) (ports D))
      @ [''-v'', ws D @ '':/home/'' @ user D @ ''/workspace'']
      @ (if \<not> root D then [''-u'', user D] else []))
     @ [name D]"

definition sync_cmd :: "Docker \<Rightarrow> string list" where
  "sync_cmd D = [''docker'', ''exec'', name D, ''sync'']"

definition drop_cmd :: "Docker \<Rightarrow> string list" where
  "drop_cmd D =
     [''docker'', ''exec'', name D, ''bash'', ''-c'', ''echo 3 > /proc/sys/vm/drop_caches'']"

definition clear_cache :: "env \<Rightarrow> Docker \<Rightarrow> unit action" where
  "clear_cache E D =
     try_except_Exception
       (bind (subprocess_run E (sync_cmd D) True) (\<lambda>_.
        bind (subprocess_run E (drop_cmd D) True) (\<lambda>_.
        dbg D 2 ''Cache cleared'')))
       (\<lambda>e. print (''Cache clear failed: '' @ str_exn e))"

definition startup_cmd :: "Docker \<Rightarrow> string list" where
  "startup_cmd D =
     [''docker'', ''exec'', name D, ''bash'', ''-c'',
      ''cd /home/'' @ user D @ ''/workspace && ./'' @ (case script D of Some p \<Rightarrow> p | None \<Rightarrow> ''None'')]"

definition create :: "env \<Rightarrow> Docker \<Rightarrow> unit action" where
  "create E D =
     bind (exists_path E (df D)) (\<lambda>f.
       if \<not> f then print (''No Dockerfile at '' @ df D)
       else
         bind (fs_call E (Makedirs (ws D))) (\<lambda>_.
         bind (build E D) (\<lambda>built.
           if \<not> built then return ()
           else
             bind (subprocess_run E (run_cmd D) True) (\<lambda>_.
               if truthy (script D) then
                 bind (subprocess_run E (startup_cmd D) True) (\<lambda>_. return ())
               else return ()))))"

text \<open>
  The dictionary \<^verbatim>\<open>checks\<close> of \<^verbatim>\<open>run\<close>, in insertion order: the key is
  an operation and a condition already evaluated, the value the message text.
\<close>

definition checks :: "bool \<Rightarrow> bool \<Rightarrow> ((Op \<times> bool) \<times> string) list" where
  "checks ex rn =
     [((CREATE, ex), ''exists. Use 'start' or 'reset'.''),
      ((START, \<not> ex \<or> rn),
         sq @ ''not found'' @ sq @ '' if not exists else '' @ sq @ ''running'' @ sq),
      ((STOP, \<not> ex \<or> \<not> rn),
         sq @ ''not found'' @ sq @ '' if not exists else '' @ sq @ ''not running'' @ sq),
      ((RESTART, \<not> ex), ''not found. Use 'create'.''),
      ((CLEAN, \<not> ex), ''not found. Use 'create'.'')]"

text \<open>
  The loop over \<^verbatim>\<open>checks.items()\<close>: the first entry whose operation is
  \<^verbatim>\<open>self.op\<close> and whose condition holds gives the line to print, and
  \<^verbatim>\<open>run\<close> returns there. The text goes through \<^verbatim>\<open>eval\<close> only if it
  contains an opening brace.
\<close>

fun first_check :: "env \<Rightarrow> Docker \<Rightarrow> bool \<Rightarrow> bool \<Rightarrow> ((Op \<times> bool) \<times> string) list \<Rightarrow> string option" where
  "first_check E D ex rn [] = None"
| "first_check E D ex rn (((op', cond), msg) # rest) =
     (if op D = op' \<and> cond then
        Some (''Container '' @ name D @ '' '' @
              (if CHR ''{'' \<in> set msg then py_eval E msg ex rn else msg))
      else first_check E D ex rn rest)"

text \<open>\<^verbatim>\<open>self.op.name.lower()\<close>.\<close>

fun op_name_lower :: "Op \<Rightarrow> string" where
  "op_name_lower CREATE = ''create''"
| "op_name_lower START = ''start''"
| "op_name_lower STOP = ''stop''"
| "op_name_lower RESTART = ''restart''"
| "op_name_lower CLEAN = ''clean''"
| "op_name_lower RESET = ''reset''"
| "op_name_lower NUKE = ''nuke''"

text \<open>
  The first element of the lists built for \<^verbatim>\<open>RESET\<close> and \<^verbatim>\<open>NUKE\<close>:
  \<^verbatim>\<open>subprocess.run(["docker", "stop" if running else "rm", self.name], check=True) if exists else None\<close>.
\<close>

definition teardown_cmd :: "Docker \<Rightarrow> bool \<Rightarrow> string list" where
  "teardown_cmd D rn = [''docker'', if rn then ''stop'' else ''rm'', name D]"

definition teardown :: "env \<Rightarrow> Docker \<Rightarrow> bool \<Rightarrow> bool \<Rightarrow> unit action" where
  "teardown E D ex rn =
     (if ex then bind (subprocess_run E (teardown_cmd D rn) True) (\<lambda>_. return ())
      else return ())"

text \<open>The dictionary \<^verbatim>\<open>ops\<close> of \<^verbatim>\<open>run\<close>, applied at \<^verbatim>\<open>self.op\<close>.\<close>

fun ops :: "env \<Rightarrow> Docker \<Rightarrow> bool \<Rightarrow> bool \<Rightarrow> Op \<Rightarrow> unit action" where
  "ops E D ex rn CREATE = create E D"
| "ops E D ex rn START =
     bind (subprocess_run E [''docker'', ''start'', name D] True) (\<lambda>_. return ())"
| "ops E D ex rn STOP =
     bind (subprocess_run E [''docker'', ''stop'', name D] True) (\<lambda>_. return ())"
| "ops E D ex rn RESTART =
     bind (subprocess_run E [''docker'', ''restart'', name D] True) (\<lambda>_. return ())"
| "ops E D ex rn CLEAN =
     bind (clear_cache E D) (\<lambda>_.
     bind (subprocess_run E [''docker'', ''restart'', name D] True) (\<lambda>_. return ()))"
| "ops E D ex rn RESET =
     bind (teardown E D ex rn) (\<lambda>_. create E D)"
| "ops E D ex rn NUKE =
     bind (teardown E D ex rn) (\<lambda>_.
     bind (subprocess_run E [''docker'', ''rmi'', name D] True) (\<lambda>_.
     create E D))"

text \<open>What \<^verbatim>\<open>run\<close> does once \<^verbatim>\<open>exists\<close> and \<^verbatim>\<open>running\<close> are known.\<close>

definition dispatch :: "env \<Rightarrow> Docker \<Rightarrow> bool \<Rightarrow> bool \<Rightarrow> unit action" where
  "dispatch E D ex rn =
     (case first_check E D ex rn (checks ex rn) of
        Some line \<Rightarrow> print line
      | None \<Rightarrow>
          bind (ops E D ex rn (op D)) (\<lambda>_.
          print (''Operation '' @ sq @ op_name_lower (op D) @ sq @ '' completed!'')))"

definition run :: "env \<Rightarrow> Docker \<Rightarrow> unit action" where
  "run E D =
     try_except_Exception
       (bind (setup' E D) (\<lambda>_.
        bind (exists E D) (\<lambda>ex.
        bind (running E D) (\<lambda>rn.
        dispatch E D ex rn))))
       (\<lambda>e. print ((if is_CalledProcessError e then ''Error during'' else ''Unexpected'')
                    @ '' error: '' @ str_exn e))"

subsection \<open>Notions used to state the properties\<close>

text \<open>
  The part of \<^verbatim>\<open>run\<close> up to the point where \<^verbatim>\<open>exists\<close> and
  \<^verbatim>\<open>running\<close> are known: the observed state of the container.
\<close>

definition observe :: "env \<Rightarrow> Docker \<Rightarrow> (bool \<times> bool) action" where
  "observe E D =
     bind (setup' E D) (\<lambda>_.
     bind (exists E D) (\<lambda>ex.
     bind (running E D) (\<lambda>rn.
     return (ex, rn))))"

text \<open>A call succeeds, after the calls \<open>h\<close>, when it does not raise.\<close>

fun call_ok :: "env \<Rightarrow> call list \<Rightarrow> call \<Rightarrow> bool" where
  "call_ok E h (Subprocess cmd check) =
     (case proc E h cmd check of Inl e \<Rightarrow> False | Inr stdout \<Rightarrow> True)"
| "call_ok E h c = (fs_raises E h c = None)"

text \<open>
  Fail-fast sequencing of an ordered list of calls: the calls that are
  issued, each one only if all the earlier ones succeeded.
\<close>

fun attempted :: "env \<Rightarrow> call list \<Rightarrow> call list \<Rightarrow> call list" where
  "attempted E h [] = []"
| "attempted E h (c # cs) = c # (if call_ok E h c then attempted E (h @ [c]) cs else [])"

fun all_ok :: "env \<Rightarrow> call list \<Rightarrow> call list \<Rightarrow> bool" where
  "all_ok E h [] = True"
| "all_ok E h (c # cs) = (call_ok E h c \<and> all_ok E (h @ [c]) cs)"

text \<open>
  The Create sequence as the specification words it: ensure the workspace
  directory, build the image, create and start the container, and run the
  startup script if one is configured.
\<close>

definition create_seq :: "Docker \<Rightarrow> call list" where
  "create_seq D =
     [Makedirs (ws D), Subprocess (build_cmd D) True, Subprocess (run_cmd D) True]
     @ (if truthy (script D) then [Subprocess (startup_cmd D) True] else [])"

text \<open>The two state queries, in the order \<^verbatim>\<open>run\<close> makes them.\<close>

definition queries :: "Docker \<Rightarrow> call list" where
  "queries D = [Subprocess (exists_cmd D) False, Subprocess (running_cmd D) False]"

text \<open>
  The calls of the Create sequence that are issued after the calls \<open>h\<close>:
  none when the Dockerfile is missing, otherwise the sequence up to and
  including its first failing call.
\<close>

definition create_calls :: "env \<Rightarrow> Docker \<Rightarrow> call list \<Rightarrow> call list" where
  "create_calls E D h =
     (if path_exists E h (df D) then attempted E h (create_seq D) else [])"

text \<open>
  The container teardown of RecreateIfExists and FullRebuild as the
  specification words it: if the container exists, stop it if it runs,
  else remove it.
\<close>

definition teardown_calls :: "Docker \<Rightarrow> bool \<Rightarrow> bool \<Rightarrow> call list" where
  "teardown_calls D ex rn =
     (if ex then [Subprocess [''docker'', if rn then ''stop'' else ''rm'', name D] True] else [])"

text \<open>The image removal of FullRebuild.\<close>

definition rmi_call :: "Docker \<Rightarrow> call" where
  "rmi_call D = Subprocess [''docker'', ''rmi'', name D] True"

subsection \<open>A concrete container and a concrete outside world\<close>

definition D_web :: Docker where
  "D_web =
     \<lparr>name = ''web'', op = CREATE, user = ''alice'', pwd = ''secret'',
      ws = ''/srv/ws'', script = Some ''init.sh'', root = False, debug = 0,
      dir = ''/opt/projects/web'', df = ''/opt/projects/web/Dockerfile'',
      ports = [(8080, 80), (2222, 22)]\<rparr>"

text \<open>
  A world with the paths \<open>files\<close> at the start, where a path comes into
  being once it has been made or copied to, where copying a missing file
  raises, where the commands \<open>failing\<close> exit with a non-zero status and
  where the commands \<open>answering\<close> print the name of the container.
\<close>

fun makes :: "string \<Rightarrow> call \<Rightarrow> bool" where
  "makes p (Mkdir q) = (p = q)"
| "makes p (Makedirs q) = (p = q)"
| "makes p (Copy2 src q) = (p = q)"
| "makes p (Subprocess cmd check) = False"

fun copy_fails :: "string list \<Rightarrow> call \<Rightarrow> exn option" where
  "copy_fails files (Copy2 src q) =
     (if src \<in> set files then None else Some (OtherException ''No such file or directory''))"
| "copy_fails files c = None"

definition world :: "string list \<Rightarrow> string list list \<Rightarrow> string list list \<Rightarrow> env" where
  "world files failing answering =
     \<lparr>path_exists = (\<lambda>h p. p \<in> set files \<or> list_ex (makes p) h),
      fs_raises = (\<lambda>h c. copy_fails files c),
      proc = (\<lambda>h cmd check.
        if cmd \<in> set failing then Inl (CalledProcessError ''non-zero exit status 1'')
        else if cmd \<in> set answering then Inr ''web'' else Inr []),
      TMPL = ''/opt/drun/templates'',
      py_eval = (\<lambda>msg ex rn. msg)\<rparr>"

definition s0 :: st where
  "s0 = \<lparr>trace = [], out = []\<rparr>"

text \<open>A world where every engine command raises the exception \<open>e\<close>.\<close>

definition world_raising :: "exn \<Rightarrow> env" where
  "world_raising e = (world [] [] [])\<lparr>proc := \<lambda>h cmd check. Inl e\<rparr>"

text \<open>
  Worlds where the project directory, the Dockerfile and the template are in
  place, the commands \<open>failing\<close> fail, and the container \<open>web\<close> is
  running, stopped or absent.
\<close>

definition files_web :: "string list" where
  "files_web =
     [''/opt/projects/web'', ''/opt/projects/web/Dockerfile'',
      ''/opt/drun/templates/Dockerfile.template'']"

definition world_up :: "string list list \<Rightarrow> env" where
  "world_up failing = world files_web failing [exists_cmd D_web, running_cmd D_web]"

definition world_down :: "string list list \<Rightarrow> env" where
  "world_down failing = world files_web failing [exists_cmd D_web]"

definition world_none :: "string list list \<Rightarrow> env" where
  "world_none failing = world files_web failing []"

text \<open>
  A world where only the template is in place: no project directory, no
  Dockerfile, no container.
\<close>

definition world_fresh :: env where
  "world_fresh = world [''/opt/drun/templates/Dockerfile.template''] [] []"

subsection \<open>The methods, step by step\<close>

lemma exists_eq:
  "exists E D s =
     (Inr (case proc E (trace s) (exists_cmd D) False of
             Inl e \<Rightarrow> False | Inr stdout \<Rightarrow> str_in (name D) stdout),
      s\<lparr>trace := trace s @ [Subprocess (exists_cmd D) False]\<rparr>)"
  by (simp add: exists_def try_except_all_def bind_def subprocess_run_def return_def
      split: sum.splits)

lemma running_eq:
  "running E D s =
     (Inr (case proc E (trace s) (running_cmd D) False of
             Inl e \<Rightarrow> False | Inr stdout \<Rightarrow> str_in (name D) stdout),
      s\<lparr>trace := trace s @ [Subprocess (running_cmd D) False]\<rparr>)"
  by (simp add: running_def try_except_all_def bind_def subprocess_run_def return_def
      split: sum.splits)

lemma dbg_eq:
  "dbg D lvl msg s =
     (Inr (), s\<lparr>out := out s @
        (if debug D \<ge> lvl then [''[DEBUG-'' @ str_int lvl @ ''] '' @ msg] else [])\<rparr>)"
  by (simp add: dbg_def print_def return_def)

lemma attempted_prefix: "prefix (attempted E h cs) cs"
  by (induction cs arbitrary: h) auto

lemma attempted_all_ok: "all_ok E h cs \<Longrightarrow> attempted E h cs = cs"
  by (induction cs arbitrary: h) auto

lemma build_trace: "trace (snd (build E D s)) = trace s @ [Subprocess (build_cmd D) True]"
  by (simp add: build_def bind_def dbg_eq try_except_Exception_def subprocess_run_def
      print_def return_def split: sum.splits)

lemma build_fst:
  "fst (build E D s) =
     (case proc E (trace s) (build_cmd D) True of
        Inr stdout \<Rightarrow> Inr True
      | Inl e \<Rightarrow> if is_Exception e then Inr False else Inl e)"
  by (simp add: build_def bind_def dbg_eq try_except_Exception_def subprocess_run_def
      print_def return_def split: sum.splits)

lemma create_trace:
  "trace (snd (create E D s)) =
     trace s @ (if path_exists E (trace s) (df D)
                then attempted E (trace s) (create_seq D) else [])"
  apply (simp add: create_def create_seq_def bind_def exists_path_def print_def fs_call_def
      split: option.splits)
  apply (cases "build E D (s\<lparr>trace := trace s @ [Makedirs (ws D)]\<rparr>)")
  using build_trace[of E D "s\<lparr>trace := trace s @ [Makedirs (ws D)]\<rparr>"]
        build_fst[of E D "s\<lparr>trace := trace s @ [Makedirs (ws D)]\<rparr>"]
  apply (auto simp: return_def subprocess_run_def bind_def split: sum.splits if_splits)
  done

subsection \<open>The state queries\<close>

text \<open>
  C9. The existence and running-state queries are total at the controller
  boundary: \<^verbatim>\<open>exists\<close> and \<^verbatim>\<open>running\<close> always return a truth value, and
  when the engine query raises any exception, also one that only a bare
  \<^verbatim>\<open>except:\<close> catches, they return false, which is the answer they give
  when the query prints an output that does not contain the name.
\<close>

theorem state_queries_total:
  "(\<exists>b. fst (exists E D s) = Inr b) \<and> (\<exists>b. fst (running E D s) = Inr b) \<and>
   (proc E (trace s) (exists_cmd D) False = Inl e \<longrightarrow> fst (exists E D s) = Inr False) \<and>
   (proc E (trace s) (running_cmd D) False = Inl e \<longrightarrow> fst (running E D s) = Inr False) \<and>
   (proc E (trace s) (exists_cmd D) False = Inr stdout \<and> \<not> str_in (name D) stdout
      \<longrightarrow> fst (exists E D s) = Inr False) \<and>
   (proc E (trace s) (running_cmd D) False = Inr stdout \<and> \<not> str_in (name D) stdout
      \<longrightarrow> fst (running E D s) = Inr False)"
  by (simp add: exists_eq running_eq)

theorem state_queries_total_witness:
  "proc (world_raising (BaseOnly ''KeyboardInterrupt'')) (trace s0) (exists_cmd D_web) False
     = Inl (BaseOnly ''KeyboardInterrupt'') \<and>
   proc (world_raising (BaseOnly ''KeyboardInterrupt'')) (trace s0) (running_cmd D_web) False
     = Inl (BaseOnly ''KeyboardInterrupt'') \<and>
   fst (exists (world_raising (BaseOnly ''KeyboardInterrupt'')) D_web s0) = Inr False \<and>
   fst (running (world_raising (BaseOnly ''KeyboardInterrupt'')) D_web s0) = Inr False"
  using state_queries_total
    [of "world_raising (BaseOnly ''KeyboardInterrupt'')" D_web s0
        "BaseOnly ''KeyboardInterrupt''" "[]"]
  by (simp add: world_raising_def)

subsection \<open>The validation gate\<close>

lemma first_check_table:
  "(first_check E D ex rn (checks ex rn) \<noteq> None) =
     (case op D of
        CREATE \<Rightarrow> ex
      | START \<Rightarrow> \<not> ex \<or> rn
      | STOP \<Rightarrow> \<not> ex \<or> \<not> rn
      | RESTART \<Rightarrow> \<not> ex
      | CLEAN \<Rightarrow> \<not> ex
      | RESET \<Rightarrow> False
      | NUKE \<Rightarrow> False)"
  by (cases "op D") (simp_all add: checks_def)

lemma run_observe:
  "run E D s =
     try_except_Exception (bind (observe E D) (\<lambda>(ex, rn). dispatch E D ex rn))
       (\<lambda>e. print ((if is_CalledProcessError e then ''Error during'' else ''Unexpected'')
                    @ '' error: '' @ str_exn e)) s"
  by (simp add: run_def observe_def try_except_Exception_def bind_def return_def
      exists_eq running_eq split: prod.splits sum.splits)

lemma observe_trace:
  "observe E D s = (Inr (ex, rn), s3) \<Longrightarrow>
     trace s3 = trace (snd (setup' E D s)) @ queries D"
  by (auto simp add: observe_def bind_def return_def exists_eq running_eq queries_def
      split: prod.splits sum.splits)

lemma run_rejected:
  assumes "observe E D s = (Inr (ex, rn), s3)"
    and "first_check E D ex rn (checks ex rn) = Some line"
  shows "run E D s = (Inr (), s3\<lparr>out := out s3 @ [line]\<rparr>)"
  using assms
  by (simp add: run_observe try_except_Exception_def bind_def dispatch_def print_def)

lemma run_accepted_trace:
  assumes "observe E D s = (Inr (ex, rn), s3)"
    and "first_check E D ex rn (checks ex rn) = None"
  shows "trace (snd (run E D s)) = trace (snd (ops E D ex rn (op D) s3))"
  using assms
  by (auto simp add: run_observe try_except_Exception_def bind_def dispatch_def print_def
      split: prod.splits sum.splits)

text \<open>
  C1. For every operation and every observed pair of \<^verbatim>\<open>exists\<close> and
  \<^verbatim>\<open>running\<close>, the loop over \<^verbatim>\<open>checks\<close> rejects exactly as the table of
  section 4.1 says: Create iff the container exists, Start iff it does not
  exist or runs, Stop iff it does not exist or does not run, Restart and
  ClearCacheAndRestart iff it does not exist, RecreateIfExists and
  FullRebuild never. A rejected operation prints one line and returns in
  the observed state: no call is issued after the two state queries. An
  accepted operation issues the calls of its entry in \<^verbatim>\<open>ops\<close>.
\<close>

theorem validation_gate:
  assumes "observe E D s = (Inr (ex, rn), s3)"
  shows "((first_check E D ex rn (checks ex rn) \<noteq> None) =
            (case op D of
               CREATE \<Rightarrow> ex
             | START \<Rightarrow> \<not> ex \<or> rn
             | STOP \<Rightarrow> \<not> ex \<or> \<not> rn
             | RESTART \<Rightarrow> \<not> ex
             | CLEAN \<Rightarrow> \<not> ex
             | RESET \<Rightarrow> False
             | NUKE \<Rightarrow> False)) \<and>
         (first_check E D ex rn (checks ex rn) \<noteq> None \<longrightarrow>
            (\<exists>line. run E D s = (Inr (), s3\<lparr>out := out s3 @ [line]\<rparr>)) \<and>
            trace (snd (run E D s)) = trace (snd (setup' E D s)) @ queries D) \<and>
         (first_check E D ex rn (checks ex rn) = None \<longrightarrow>
            trace (snd (run E D s)) = trace (snd (ops E D ex rn (op D) s3)))"
proof (intro conjI impI)
  show "(first_check E D ex rn (checks ex rn) \<noteq> None) =
          (case op D of
             CREATE \<Rightarrow> ex
           | START \<Rightarrow> \<not> ex \<or> rn
           | STOP \<Rightarrow> \<not> ex \<or> \<not> rn
           | RESTART \<Rightarrow> \<not> ex
           | CLEAN \<Rightarrow> \<not> ex
           | RESET \<Rightarrow> False
           | NUKE \<Rightarrow> False)"
    by (rule first_check_table)
next
  assume "first_check E D ex rn (checks ex rn) \<noteq> None"
  then obtain line where l: "first_check E D ex rn (checks ex rn) = Some line"
    by blast
  from run_rejected [OF assms l]
  show "\<exists>line. run E D s = (Inr (), s3\<lparr>out := out s3 @ [line]\<rparr>)"
    by blast
  from run_rejected [OF assms l] observe_trace [OF assms]
  show "trace (snd (run E D s)) = trace (snd (setup' E D s)) @ queries D"
    by simp
next
  assume "first_check E D ex rn (checks ex rn) = None"
  with assms show "trace (snd (run E D s)) = trace (snd (ops E D ex rn (op D) s3))"
    by (rule run_accepted_trace)
qed

lemma observe_world:
  assumes "exists_cmd D_web \<notin> set F" and "running_cmd D_web \<notin> set F"
  shows "observe (world files_web F A) (D_web\<lparr>op := x\<rparr>) s0 =
     (Inr (exists_cmd D_web \<in> set A, running_cmd D_web \<in> set A),
      \<lparr>trace = queries D_web, out = []\<rparr>)"
proof -
  have e: "exists_cmd (D_web\<lparr>op := x\<rparr>) = exists_cmd D_web"
    and r: "running_cmd (D_web\<lparr>op := x\<rparr>) = running_cmd D_web"
    by (simp_all add: exists_cmd_def running_cmd_def)
  have n: "name (D_web\<lparr>op := x\<rparr>) = ''web''"
    and d: "dir (D_web\<lparr>op := x\<rparr>) \<in> set files_web"
    and f: "df (D_web\<lparr>op := x\<rparr>) \<in> set files_web"
    by (simp_all add: D_web_def files_web_def)
  show ?thesis
    using assms d f
    by (simp add: observe_def setup'_def bind_def return_def exists_path_def exists_eq
        running_eq e r n world_def s0_def queries_def)
qed

theorem validation_gate_witness:
  "observe (world_up []) (D_web\<lparr>op := START\<rparr>) s0 =
     (Inr (True, True), \<lparr>trace = queries D_web, out = []\<rparr>) \<and>
   first_check (world_up []) (D_web\<lparr>op := START\<rparr>) True True (checks True True) \<noteq> None \<and>
   (\<exists>line. run (world_up []) (D_web\<lparr>op := START\<rparr>) s0 =
      (Inr (), \<lparr>trace = queries D_web, out = [line]\<rparr>)) \<and>
   observe (world_down []) (D_web\<lparr>op := START\<rparr>) s0 =
     (Inr (True, False), \<lparr>trace = queries D_web, out = []\<rparr>) \<and>
   first_check (world_down []) (D_web\<lparr>op := START\<rparr>) True False (checks True False) = None \<and>
   trace (snd (run (world_down []) (D_web\<lparr>op := START\<rparr>) s0)) =
     queries D_web @ [Subprocess [''docker'', ''start'', ''web''] True]"
proof -
  have up: "observe (world_up []) (D_web\<lparr>op := START\<rparr>) s0 =
     (Inr (True, True), \<lparr>trace = queries D_web, out = []\<rparr>)"
    using observe_world [of "[]" "[exists_cmd D_web, running_cmd D_web]" START]
    by (simp add: world_up_def)
  have down: "observe (world_down []) (D_web\<lparr>op := START\<rparr>) s0 =
     (Inr (True, False), \<lparr>trace = queries D_web, out = []\<rparr>)"
    using observe_world [of "[]" "[exists_cmd D_web]" START]
    by (simp add: world_down_def exists_cmd_def running_cmd_def)
  have n: "name (D_web\<lparr>op := START\<rparr>) = ''web''"
    by (simp add: D_web_def)
  from validation_gate [OF up] validation_gate [OF down] up down n show ?thesis
    by (simp add: checks_def bind_def subprocess_run_def return_def split: sum.splits)
qed

lemma run_after_observe:
  assumes "observe E D s = (Inr (ex, rn), s3)"
  shows "run E D s =
     try_except_Exception (dispatch E D ex rn)
       (\<lambda>e. print ((if is_CalledProcessError e then ''Error during'' else ''Unexpected'')
                    @ '' error: '' @ str_exn e)) s3"
  using assms by (simp add: run_observe try_except_Exception_def bind_def)

text \<open>
  C2. Start on a container that exists and runs issues no call after the
  two state queries. The line it prints, however, is not ``already
  running'': the text of the table entry is a Python conditional expression
  that \<^verbatim>\<open>run\<close> would pass to \<^verbatim>\<open>eval\<close> only if it contained an opening
  brace, and it contains none, so the expression is printed as it is
  written, the same for a container that runs and for one that was not
  found.
\<close>

theorem start_rejection_message:
  "run (world_up []) (D_web\<lparr>op := START\<rparr>) s0 =
     (Inr (), \<lparr>trace = queries D_web,
        out = [''Container web '' @ sq @ ''not found'' @ sq @ '' if not exists else ''
               @ sq @ ''running'' @ sq]\<rparr>) \<and>
   run (world_none []) (D_web\<lparr>op := START\<rparr>) s0 =
     (Inr (), \<lparr>trace = queries D_web,
        out = [''Container web '' @ sq @ ''not found'' @ sq @ '' if not exists else ''
               @ sq @ ''running'' @ sq]\<rparr>)"
proof -
  have up: "observe (world_up []) (D_web\<lparr>op := START\<rparr>) s0 =
     (Inr (True, True), \<lparr>trace = queries D_web, out = []\<rparr>)"
    using observe_world [of "[]" "[exists_cmd D_web, running_cmd D_web]" START]
    by (simp add: world_up_def)
  have none: "observe (world_none []) (D_web\<lparr>op := START\<rparr>) s0 =
     (Inr (False, False), \<lparr>trace = queries D_web, out = []\<rparr>)"
    using observe_world [of "[]" "[]" START]
    by (simp add: world_none_def)
  have n: "name (D_web\<lparr>op := START\<rparr>) = ''web''"
    by (simp add: D_web_def)
  show ?thesis
    by (simp add: run_after_observe [OF up] run_after_observe [OF none] n
        try_except_Exception_def dispatch_def checks_def print_def sq_def)
qed

subsection \<open>Failures that do not stop the operation\<close>

lemma clear_cache_eq:
  "clear_cache E D s =
     (case proc E (trace s) (sync_cmd D) True of
        Inl e \<Rightarrow>
          if is_Exception e then
            (Inr (), s\<lparr>trace := trace s @ [Subprocess (sync_cmd D) True],
                       out := out s @ [''Cache clear failed: '' @ str_exn e]\<rparr>)
          else (Inl e, s\<lparr>trace := trace s @ [Subprocess (sync_cmd D) True]\<rparr>)
      | Inr stdout \<Rightarrow>
          (case proc E (trace s @ [Subprocess (sync_cmd D) True]) (drop_cmd D) True of
             Inl e \<Rightarrow>
               if is_Exception e then
                 (Inr (), s\<lparr>trace := trace s @ [Subprocess (sync_cmd D) True,
                                                    Subprocess (drop_cmd D) True],
                            out := out s @ [''Cache clear failed: '' @ str_exn e]\<rparr>)
               else (Inl e, s\<lparr>trace := trace s @ [Subprocess (sync_cmd D) True,
                                                     Subprocess (drop_cmd D) True]\<rparr>)
           | Inr stdout' \<Rightarrow>
               (Inr (), s\<lparr>trace := trace s @ [Subprocess (sync_cmd D) True,
                                                  Subprocess (drop_cmd D) True],
                          out := out s @ (if debug D \<ge> 2
                             then [''[DEBUG-'' @ str_int 2 @ ''] Cache cleared''] else [])\<rparr>)))"
  by (simp add: clear_cache_def try_except_Exception_def bind_def subprocess_run_def dbg_eq
      print_def split: sum.splits)

text \<open>
  C3, as the specification states it, fails: on a running container whose
  \<^verbatim>\<open>sync\<close> exec exits with a non-zero status, ClearCacheAndRestart
  reports the failure and then issues the restart command all the same,
  and reports the operation as completed.
\<close>

theorem clean_restart_after_failed_sync:
  "\<not> call_ok (world_up [sync_cmd D_web]) (queries D_web) (Subprocess (sync_cmd D_web) True) \<and>
   run (world_up [sync_cmd D_web]) (D_web\<lparr>op := CLEAN\<rparr>) s0 =
     (Inr (), \<lparr>trace = queries D_web @
                 [Subprocess (sync_cmd D_web) True,
                  Subprocess [''docker'', ''restart'', ''web''] True],
        out = [''Cache clear failed: non-zero exit status 1'',
               ''Operation '' @ sq @ ''clean'' @ sq @ '' completed!'']\<rparr>)"
proof -
  have up: "observe (world_up [sync_cmd D_web]) (D_web\<lparr>op := CLEAN\<rparr>) s0 =
     (Inr (True, True), \<lparr>trace = queries D_web, out = []\<rparr>)"
    using observe_world [of "[sync_cmd D_web]" "[exists_cmd D_web, running_cmd D_web]" CLEAN]
    by (simp add: world_up_def exists_cmd_def running_cmd_def sync_cmd_def)
  have n: "name (D_web\<lparr>op := CLEAN\<rparr>) = ''web''"
    and c: "sync_cmd (D_web\<lparr>op := CLEAN\<rparr>) = sync_cmd D_web"
    by (simp_all add: D_web_def sync_cmd_def)
  have p: "proc (world_up [sync_cmd D_web]) h (sync_cmd D_web) True =
             Inl (CalledProcessError ''non-zero exit status 1'')" for h
    by (simp add: world_up_def world_def)
  have r: "proc (world_up [sync_cmd D_web]) h [''docker'', ''restart'', ''web''] True = Inr []"
    for h
    by (simp add: world_up_def world_def sync_cmd_def exists_cmd_def running_cmd_def D_web_def)
  show ?thesis
    by (simp add: run_after_observe [OF up] n c p r clear_cache_eq
        try_except_Exception_def dispatch_def checks_def print_def bind_def
        subprocess_run_def return_def)
qed

text \<open>
  C4. The confirmation is not reserved for operations whose every action
  succeeded: when the build step of Create fails on a container that does
  not exist, \<^verbatim>\<open>build\<close> prints the failure, \<^verbatim>\<open>create\<close> returns early
  without a run or exec action, and \<^verbatim>\<open>run\<close> then prints that the
  operation completed.
\<close>

theorem create_completed_after_failed_build:
  "run (world_none [build_cmd D_web]) D_web s0 =
     (Inr (), \<lparr>trace = queries D_web @
                 [Makedirs ''/srv/ws'', Subprocess (build_cmd D_web) True],
        out = [''Build failed: non-zero exit status 1'',
               ''Operation '' @ sq @ ''create'' @ sq @ '' completed!'']\<rparr>)"
proof -
  have none: "observe (world_none [build_cmd D_web]) (D_web\<lparr>op := CREATE\<rparr>) s0 =
     (Inr (False, False), \<lparr>trace = queries D_web, out = []\<rparr>)"
    using observe_world [of "[build_cmd D_web]" "[]" CREATE]
    by (simp add: world_none_def exists_cmd_def running_cmd_def build_cmd_def)
  have d: "D_web\<lparr>op := CREATE\<rparr> = D_web"
    by (simp add: D_web_def)
  have p: "proc (world_none [build_cmd D_web]) h (build_cmd D_web) True =
             Inl (CalledProcessError ''non-zero exit status 1'')" for h
    by (simp add: world_none_def world_def)
  have f: "path_exists (world_none [build_cmd D_web]) h (df D_web)"
    and m: "fs_raises (world_none [build_cmd D_web]) h (Makedirs x) = None" for h x
    by (simp_all add: world_none_def world_def files_web_def D_web_def)
  have g: "op D_web = CREATE" "ws D_web = ''/srv/ws''" "debug D_web = 0"
    by (simp_all add: D_web_def)
  show ?thesis
    using none unfolding d
    by (simp add: run_after_observe [OF none [unfolded d]] p f m g
        try_except_Exception_def dispatch_def checks_def print_def bind_def
        create_def build_def exists_path_def fs_call_def dbg_def
        subprocess_run_def return_def)
qed

text \<open>
  C3, as the code has it. For ClearCacheAndRestart on an existing
  container: if the \<^verbatim>\<open>sync\<close> exec raises an exception of class
  \<^verbatim>\<open>Exception\<close>, the cache-drop exec is not issued; if either exec
  raises one, the controller prints ``Cache clear failed'' with the text of
  the exception, and the restart command is issued next all the same.
\<close>

theorem clean_reports_and_restarts:
  assumes "observe E D s = (Inr (True, rn), s3)" and "op D = CLEAN" and "is_Exception e"
  shows "(proc E (trace s3) (sync_cmd D) True = Inl e \<longrightarrow>
            trace (snd (run E D s)) =
              trace s3 @ [Subprocess (sync_cmd D) True,
                          Subprocess [''docker'', ''restart'', name D] True] \<and>
            prefix (out s3 @ [''Cache clear failed: '' @ str_exn e]) (out (snd (run E D s)))) \<and>
         (proc E (trace s3) (sync_cmd D) True = Inr stdout \<and>
          proc E (trace s3 @ [Subprocess (sync_cmd D) True]) (drop_cmd D) True = Inl e \<longrightarrow>
            trace (snd (run E D s)) =
              trace s3 @ [Subprocess (sync_cmd D) True, Subprocess (drop_cmd D) True,
                          Subprocess [''docker'', ''restart'', name D] True] \<and>
            prefix (out s3 @ [''Cache clear failed: '' @ str_exn e]) (out (snd (run E D s))))"
  using assms(2,3)
  by (auto simp add: run_after_observe [OF assms(1)] try_except_Exception_def dispatch_def
      checks_def clear_cache_eq bind_def subprocess_run_def print_def return_def
      split: sum.splits)

subsection \<open>The command sequences\<close>

lemma create_calls_trace: "trace (snd (create E D s)) = trace s @ create_calls E D (trace s)"
  by (simp add: create_trace create_calls_def)

lemma teardown_eq:
  "teardown E D ex rn s =
     (if ex then
        (case proc E (trace s) (teardown_cmd D rn) True of
           Inl e \<Rightarrow> Inl e | Inr stdout \<Rightarrow> Inr (),
         s\<lparr>trace := trace s @ [Subprocess (teardown_cmd D rn) True]\<rparr>)
      else (Inr (), s))"
  by (simp add: teardown_def bind_def subprocess_run_def return_def split: sum.splits)

lemma first_check_None_iff:
  "(first_check E D ex rn (checks ex rn) = None) =
     (case op D of
        CREATE \<Rightarrow> \<not> ex
      | START \<Rightarrow> ex \<and> \<not> rn
      | STOP \<Rightarrow> ex \<and> rn
      | RESTART \<Rightarrow> ex
      | CLEAN \<Rightarrow> ex
      | RESET \<Rightarrow> True
      | NUKE \<Rightarrow> True)"
  using first_check_table [of E D ex rn] by (cases "op D") auto

text \<open>
  C5. Create on a container that does not exist issues, after the two
  state queries, the calls of the Create sequence in order and nothing
  else: the workspace directory is made; the image is built by
  \<^verbatim>\<open>docker build --build-arg USERNAME=<user> --build-arg USER_PASSWORD=<pwd> -t <name> -f <Dockerfile> <project directory>\<close>;
  the container is created and started by the command of \<^verbatim>\<open>run_cmd\<close>,
  which is \<^verbatim>\<open>docker run -d --name <name> ... <name>\<close>; and, only if a
  startup script is configured, the script is run in the container by a
  shell that first changes to \<^verbatim>\<open>/home/<user>/workspace\<close>. Each call is
  issued only if the earlier ones succeeded; when all succeed the whole
  sequence is issued; when the build fails the sequence stops there, with
  no run and no exec. (With no Dockerfile in place nothing is issued.)
\<close>

theorem create_sequence:
  assumes "observe E D s = (Inr (False, rn), s3)" and "op D = CREATE"
  shows "trace (snd (run E D s)) =
           trace s3 @ (if path_exists E (trace s3) (df D)
                       then attempted E (trace s3) (create_seq D) else []) \<and>
         prefix (attempted E (trace s3) (create_seq D)) (create_seq D) \<and>
         (path_exists E (trace s3) (df D) \<and> all_ok E (trace s3) (create_seq D) \<longrightarrow>
            trace (snd (run E D s)) = trace s3 @ create_seq D) \<and>
         (path_exists E (trace s3) (df D) \<and> fs_raises E (trace s3) (Makedirs (ws D)) = None \<and>
          \<not> call_ok E (trace s3 @ [Makedirs (ws D)])
              (Subprocess
                 [''docker'', ''build'',
                  ''--build-arg'', ''USERNAME='' @ user D,
                  ''--build-arg'', ''USER_PASSWORD='' @ pwd D,
                  ''-t'', name D, ''-f'', df D, dir D] True) \<longrightarrow>
            trace (snd (run E D s)) =
              trace s3 @
              [Makedirs (ws D),
               Subprocess
                 [''docker'', ''build'',
                  ''--build-arg'', ''USERNAME='' @ user D,
                  ''--build-arg'', ''USER_PASSWORD='' @ pwd D,
                  ''-t'', name D, ''-f'', df D, dir D] True]) \<and>
         create_seq D =
           [Makedirs (ws D),
            Subprocess
              [''docker'', ''build'',
               ''--build-arg'', ''USERNAME='' @ user D,
               ''--build-arg'', ''USER_PASSWORD='' @ pwd D,
               ''-t'', name D, ''-f'', df D, dir D] True,
            Subprocess (run_cmd D) True] @
           (case script D of
              None \<Rightarrow> []
            | Some p \<Rightarrow>
                if p = [] then []
                else [Subprocess [''docker'', ''exec'', name D, ''bash'', ''-c'',
                        ''cd /home/'' @ user D @ ''/workspace && ./'' @ p] True]) \<and>
         take 5 (run_cmd D) = [''docker'', ''run'', ''-d'', ''--name'', name D] \<and>
         last (run_cmd D) = name D"
proof -
  have n: "first_check E D False rn (checks False rn) = None"
    using assms(2) by (simp add: first_check_None_iff)
  have t: "trace (snd (run E D s)) =
           trace s3 @ (if path_exists E (trace s3) (df D)
                       then attempted E (trace s3) (create_seq D) else [])"
    using run_accepted_trace [OF assms(1) n] assms(2) by (simp add: create_trace)
  have k: "build_cmd D =
           [''docker'', ''build'',
            ''--build-arg'', ''USERNAME='' @ user D,
            ''--build-arg'', ''USER_PASSWORD='' @ pwd D,
            ''-t'', name D, ''-f'', df D, dir D]"
    by (simp add: build_cmd_def)
  have c: "create_seq D =
           [Makedirs (ws D), Subprocess (build_cmd D) True, Subprocess (run_cmd D) True] @
           (case script D of
              None \<Rightarrow> []
            | Some p \<Rightarrow>
                if p = [] then []
                else [Subprocess [''docker'', ''exec'', name D, ''bash'', ''-c'',
                        ''cd /home/'' @ user D @ ''/workspace && ./'' @ p] True])"
    by (simp add: create_seq_def startup_cmd_def split: option.splits)
  have b: "fs_raises E (trace s3) (Makedirs (ws D)) = None \<Longrightarrow>
           \<not> call_ok E (trace s3 @ [Makedirs (ws D)]) (Subprocess (build_cmd D) True) \<Longrightarrow>
           attempted E (trace s3) (create_seq D) =
             [Makedirs (ws D), Subprocess (build_cmd D) True]"
    by (simp add: create_seq_def)
  have r: "take 5 (run_cmd D) = [''docker'', ''run'', ''-d'', ''--name'', name D]"
    "last (run_cmd D) = name D"
    by (simp_all add: run_cmd_def)
  have "trace (snd (run E D s)) =
           trace s3 @ (if path_exists E (trace s3) (df D)
                       then attempted E (trace s3) (create_seq D) else []) \<and>
         prefix (attempted E (trace s3) (create_seq D)) (create_seq D) \<and>
         (path_exists E (trace s3) (df D) \<and> all_ok E (trace s3) (create_seq D) \<longrightarrow>
            trace (snd (run E D s)) = trace s3 @ create_seq D) \<and>
         (path_exists E (trace s3) (df D) \<and> fs_raises E (trace s3) (Makedirs (ws D)) = None \<and>
          \<not> call_ok E (trace s3 @ [Makedirs (ws D)]) (Subprocess (build_cmd D) True) \<longrightarrow>
            trace (snd (run E D s)) =
              trace s3 @ [Makedirs (ws D), Subprocess (build_cmd D) True])"
    using t b by (simp add: attempted_prefix attempted_all_ok)
  with c r show ?thesis
    unfolding k by blast
qed

text \<open>
  C6. RecreateIfExists is never rejected. On a container that exists and
  runs it issues \<^verbatim>\<open>docker stop\<close> (and no \<^verbatim>\<open>docker rm\<close>) and, the stop
  having succeeded, goes on exactly as \<^verbatim>\<open>create\<close> does from there; on a
  container that exists and does not run it issues \<^verbatim>\<open>docker rm\<close> and
  then goes on as \<^verbatim>\<open>create\<close> does; on a container that does not exist it
  goes on as \<^verbatim>\<open>create\<close> does with no teardown call. A teardown call
  that fails ends the sequence.
\<close>

theorem recreate_sequence:
  assumes "observe E D s = (Inr (ex, rn), s3)" and "op D = RESET"
  shows "(ex \<and> rn \<and> call_ok E (trace s3) (Subprocess [''docker'', ''stop'', name D] True) \<longrightarrow>
            trace (snd (run E D s)) =
              trace (snd (create E D
                (s3\<lparr>trace := trace s3 @ [Subprocess [''docker'', ''stop'', name D] True]\<rparr>))) \<and>
            trace (snd (run E D s)) =
              trace s3 @ [Subprocess [''docker'', ''stop'', name D] True] @
              create_calls E D (trace s3 @ [Subprocess [''docker'', ''stop'', name D] True])) \<and>
         (ex \<and> \<not> rn \<and> call_ok E (trace s3) (Subprocess [''docker'', ''rm'', name D] True) \<longrightarrow>
            trace (snd (run E D s)) =
              trace (snd (create E D
                (s3\<lparr>trace := trace s3 @ [Subprocess [''docker'', ''rm'', name D] True]\<rparr>))) \<and>
            trace (snd (run E D s)) =
              trace s3 @ [Subprocess [''docker'', ''rm'', name D] True] @
              create_calls E D (trace s3 @ [Subprocess [''docker'', ''rm'', name D] True])) \<and>
         (\<not> ex \<longrightarrow>
            trace (snd (run E D s)) = trace (snd (create E D s3)) \<and>
            trace (snd (run E D s)) = trace s3 @ create_calls E D (trace s3)) \<and>
         (ex \<and> \<not> all_ok E (trace s3) (teardown_calls D ex rn) \<longrightarrow>
            trace (snd (run E D s)) = trace s3 @ teardown_calls D ex rn)"
proof -
  have n: "first_check E D ex rn (checks ex rn) = None"
    using assms(2) by (simp add: first_check_None_iff)
  show ?thesis
    using run_accepted_trace [OF assms(1) n] assms(2)
    by (auto simp add: bind_def teardown_eq teardown_cmd_def teardown_calls_def
        create_calls_trace split: sum.splits)
qed

text \<open>
  C7. FullRebuild is never rejected. In every observed state, once the
  container teardown (a stop, a remove, or nothing) is done, the next call
  is \<^verbatim>\<open>docker rmi\<close>. If the image removal succeeds the operation goes on
  exactly as \<^verbatim>\<open>create\<close> does from there; if it fails, it is the last
  call: no call of the Create sequence is issued.
\<close>

theorem full_rebuild_sequence:
  assumes "observe E D s = (Inr (ex, rn), s3)" and "op D = NUKE"
    and "all_ok E (trace s3) (teardown_calls D ex rn)"
  shows "(call_ok E (trace s3 @ teardown_calls D ex rn) (rmi_call D) \<longrightarrow>
            trace (snd (run E D s)) =
              trace (snd (create E D
                (s3\<lparr>trace := trace s3 @ teardown_calls D ex rn @ [rmi_call D]\<rparr>))) \<and>
            trace (snd (run E D s)) =
              trace s3 @ teardown_calls D ex rn @ [rmi_call D] @
              create_calls E D (trace s3 @ teardown_calls D ex rn @ [rmi_call D])) \<and>
         (\<not> call_ok E (trace s3 @ teardown_calls D ex rn) (rmi_call D) \<longrightarrow>
            trace (snd (run E D s)) = trace s3 @ teardown_calls D ex rn @ [rmi_call D])"
proof -
  have n: "first_check E D ex rn (checks ex rn) = None"
    using assms(2) by (simp add: first_check_None_iff)
  show ?thesis
    using run_accepted_trace [OF assms(1) n] assms(2,3)
    by (auto simp add: bind_def teardown_eq teardown_cmd_def teardown_calls_def rmi_call_def
        subprocess_run_def create_calls_trace split: sum.splits if_splits)
qed

subsection \<open>The arguments of docker run\<close>

lemma publish_length:
  "length (concat (map (\<lambda>(h, c). [''-p'', str_int h @ '':'' @ str_int c]) ps)) = 2 * length ps"
  by (induction ps) auto

lemma publish_nth:
  "i < length ps \<Longrightarrow>
     concat (map (\<lambda>(h, c). [''-p'', str_int h @ '':'' @ str_int c]) ps) ! (2 * i) = ''-p'' \<and>
     concat (map (\<lambda>(h, c). [''-p'', str_int h @ '':'' @ str_int c]) ps) ! Suc (2 * i) =
       str_int (fst (ps ! i)) @ '':'' @ str_int (snd (ps ! i))"
proof (induction ps arbitrary: i)
  case Nil
  then show ?case by simp
next
  case (Cons p ps)
  show ?case
  proof (cases i)
    case 0
    then show ?thesis by (simp add: split_def)
  next
    case (Suc j)
    with Cons.prems have "j < length ps" by simp
    from Cons.IH [OF this] Suc show ?thesis by (simp add: split_def)
  qed
qed

text \<open>
  C8. The command that \<^verbatim>\<open>run_cmd\<close> computes is, position by position:
  \<^verbatim>\<open>docker run -d --name <name>\<close>; then for the \<open>i\<close>-th configured
  port pair, in the configured order, the flag \<^verbatim>\<open>-p\<close> and
  \<^verbatim>\<open><host>:<container>\<close>; then one \<^verbatim>\<open>-v\<close> with the workspace path
  mapped to \<^verbatim>\<open>/home/<user>/workspace\<close>; then, if and only if root mode
  is off, \<^verbatim>\<open>-u\<close> and the user name; then the image name, and nothing
  more. For the ports (8080, 80) and (2222, 22) the publish arguments are
  \<^verbatim>\<open>-p 8080:80 -p 2222:22\<close>.
\<close>

theorem run_cmd_arguments:
  "take 5 (run_cmd D) = [''docker'', ''run'', ''-d'', ''--name'', name D] \<and>
   (\<forall>i < length (ports D).
      run_cmd D ! (5 + 2 * i) = ''-p'' \<and>
      run_cmd D ! (6 + 2 * i) =
        str_int (fst (ports D ! i)) @ '':'' @ str_int (snd (ports D ! i))) \<and>
   run_cmd D ! (5 + 2 * length (ports D)) = ''-v'' \<and>
   run_cmd D ! (6 + 2 * length (ports D)) = ws D @ '':/home/'' @ user D @ ''/workspace'' \<and>
   (root D \<longrightarrow>
      length (run_cmd D) = 8 + 2 * length (ports D) \<and>
      run_cmd D ! (7 + 2 * length (ports D)) = name D) \<and>
   (\<not> root D \<longrightarrow>
      length (run_cmd D) = 10 + 2 * length (ports D) \<and>
      run_cmd D ! (7 + 2 * length (ports D)) = ''-u'' \<and>
      run_cmd D ! (8 + 2 * length (ports D)) = user D \<and>
      run_cmd D ! (9 + 2 * length (ports D)) = name D) \<and>
   (ports D = [(8080, 80), (2222, 22)] \<longrightarrow>
      take 4 (drop 5 (run_cmd D)) = [''-p'', ''8080:80'', ''-p'', ''2222:22''])"
proof -
  let ?P = "concat (map (\<lambda>(h, c). [''-p'', str_int h @ '':'' @ str_int c]) (ports D))"
  let ?A = "[''docker'', ''run'', ''-d'', ''--name'', name D]"
  let ?R = "[''-v'', ws D @ '':/home/'' @ user D @ ''/workspace'']
             @ (if \<not> root D then [''-u'', user D] else []) @ [name D]"
  have r: "run_cmd D = ?A @ ?P @ ?R"
    by (simp add: run_cmd_def)
  have l: "length ?P = 2 * length (ports D)"
    by (rule publish_length)
  have a: "(?A @ xs) ! (5 + k) = xs ! k" for xs :: "string list" and k
    by (simp add: nth_append)
  have p: "(?P @ xs) ! (2 * length (ports D) + k) = xs ! k" for xs :: "string list" and k
    using l by (simp add: nth_append)
  have c1: "take 5 (run_cmd D) = ?A"
    by (simp add: r)
  have c2: "run_cmd D ! (5 + 2 * i) = ''-p'' \<and>
      run_cmd D ! (6 + 2 * i) =
        str_int (fst (ports D ! i)) @ '':'' @ str_int (snd (ports D ! i))"
    if "i < length (ports D)" for i
  proof -
    have "6 + 2 * i = 5 + Suc (2 * i)" by simp
    then have "run_cmd D ! (6 + 2 * i) = (?P @ ?R) ! Suc (2 * i)"
      using a [of "?P @ ?R" "Suc (2 * i)"] r by simp
    moreover have "run_cmd D ! (5 + 2 * i) = (?P @ ?R) ! (2 * i)"
      using a [of "?P @ ?R" "2 * i"] r by simp
    moreover have "2 * i < length ?P" "Suc (2 * i) < length ?P"
      using that l by simp_all
    ultimately show ?thesis
      using publish_nth [OF that] by (simp add: nth_append)
  qed
  have t: "run_cmd D ! (5 + (2 * length (ports D) + k)) = ?R ! k" for k
    using a [of "?P @ ?R" "2 * length (ports D) + k"] p [of ?R k] r by simp
  have c3: "run_cmd D ! (5 + 2 * length (ports D)) = ''-v''"
    using t [of 0] by simp
  have c4: "run_cmd D ! (6 + 2 * length (ports D)) = ws D @ '':/home/'' @ user D @ ''/workspace''"
    using t [of 1] by simp
  have c5: "run_cmd D ! (7 + 2 * length (ports D)) = (if root D then name D else ''-u'')"
    using t [of 2] by simp
  have c6: "\<not> root D \<Longrightarrow> run_cmd D ! (8 + 2 * length (ports D)) = user D"
    using t [of 3] by simp
  have c7: "\<not> root D \<Longrightarrow> run_cmd D ! (9 + 2 * length (ports D)) = name D"
    using t [of 4] by simp
  have c8: "length (run_cmd D) = (if root D then 8 else 10) + 2 * length (ports D)"
    using l by (simp add: r)
  have c9: "ports D = [(8080, 80), (2222, 22)] \<Longrightarrow>
      take 4 (drop 5 (run_cmd D)) = [''-p'', ''8080:80'', ''-p'', ''2222:22'']"
    by (simp add: r str_int_def str_nat.simps digit_char_def)
  show ?thesis
    using c1 c2 c3 c4 c5 c6 c7 c8 c9 by simp
qed

subsection \<open>File-system setup\<close>

lemma setup_trace:
  "trace (snd (setup' E D s)) =
     trace s @
     (if path_exists E (trace s) (dir D) then
        (if path_exists E (trace s) (df D) then []
         else [Copy2 (TMPL E @ ''/Dockerfile.template'') (df D)])
      else
        Mkdir (dir D) #
        (if fs_raises E (trace s) (Mkdir (dir D)) = None \<and>
            \<not> path_exists E (trace s @ [Mkdir (dir D)]) (df D)
         then [Copy2 (TMPL E @ ''/Dockerfile.template'') (df D)] else []))"
  by (simp add: setup'_def bind_def exists_path_def fs_call_def return_def dbg_eq
      split: option.splits)

lemma ops_extends: "prefix (trace s) (trace (snd (ops E D ex rn x s)))"
  by (cases x)
    (auto simp add: create_calls_trace clear_cache_eq teardown_eq bind_def subprocess_run_def
      return_def split: sum.splits)

lemma dispatch_extends: "prefix (trace s) (trace (snd (dispatch E D ex rn s)))"
proof (cases "first_check E D ex rn (checks ex rn)")
  case None
  obtain r s' where o: "ops E D ex rn (op D) s = (r, s')"
    by (cases "ops E D ex rn (op D) s")
  with ops_extends [of s E D ex rn "op D"] have "prefix (trace s) (trace s')"
    by simp
  with None o show ?thesis
    by (auto simp add: dispatch_def bind_def print_def split: sum.splits)
next
  case (Some line)
  then show ?thesis
    by (simp add: dispatch_def print_def)
qed

lemma run_extends_setup: "prefix (trace (snd (setup' E D s))) (trace (snd (run E D s)))"
proof (cases "setup' E D s")
  case (Pair r s1)
  show ?thesis
  proof (cases r)
    case (Inl e)
    with Pair show ?thesis
      by (simp add: run_def try_except_Exception_def bind_def print_def)
  next
    case (Inr u)
    let ?s3 = "s1\<lparr>trace := trace s1 @ queries D\<rparr>"
    obtain ex rn where o: "observe E D s = (Inr (ex, rn), ?s3)"
      using Pair Inr
      by (simp add: observe_def bind_def exists_eq running_eq return_def queries_def)
    obtain r' s' where d: "dispatch E D ex rn ?s3 = (r', s')"
      by (cases "dispatch E D ex rn ?s3")
    with dispatch_extends [of ?s3 E D ex rn] have "prefix (trace s1 @ queries D) (trace s')"
      by simp
    then have "prefix (trace s1) (trace s')"
      using append_prefixD by blast
    with d Pair show ?thesis
      by (auto simp add: run_after_observe [OF o] try_except_Exception_def print_def
          split: sum.splits)
  qed
qed

text \<open>
  C10. Every invocation of \<^verbatim>\<open>run\<close>, whatever the operation and the
  state of the container, starts with \<^verbatim>\<open>setup\<close>: the calls of
  \<^verbatim>\<open>setup\<close> are the first calls of the run. If the project directory is
  missing it is made; if the Dockerfile is then absent the template is
  copied to it; the two state queries come after that. An operation that
  the validation gate rejects has thus issued the setup calls, followed by
  the two queries and nothing else: it has changed the project directory
  on disk when the directory or the Dockerfile was missing.
\<close>

theorem setup_before_validation:
  "prefix (trace (snd (setup' E D s))) (trace (snd (run E D s))) \<and>
   (\<not> path_exists E (trace s) (dir D) \<longrightarrow>
      prefix (trace s @ [Mkdir (dir D)]) (trace (snd (run E D s)))) \<and>
   (\<not> path_exists E (trace s) (dir D) \<and> fs_raises E (trace s) (Mkdir (dir D)) = None \<and>
    \<not> path_exists E (trace s @ [Mkdir (dir D)]) (df D) \<longrightarrow>
      prefix (trace s @ [Mkdir (dir D), Copy2 (TMPL E @ ''/Dockerfile.template'') (df D)])
        (trace (snd (run E D s)))) \<and>
   (path_exists E (trace s) (dir D) \<and> \<not> path_exists E (trace s) (df D) \<longrightarrow>
      prefix (trace s @ [Copy2 (TMPL E @ ''/Dockerfile.template'') (df D)])
        (trace (snd (run E D s)))) \<and>
   (observe E D s = (Inr (ex, rn), s3) \<longrightarrow>
      trace s3 = trace (snd (setup' E D s)) @ queries D) \<and>
   (observe E D s = (Inr (ex, rn), s3) \<and> first_check E D ex rn (checks ex rn) \<noteq> None \<longrightarrow>
      trace (snd (run E D s)) = trace (snd (setup' E D s)) @ queries D)"
proof -
  have p: "prefix (trace (snd (setup' E D s))) (trace (snd (run E D s)))"
    by (rule run_extends_setup)
  have a: "\<not> path_exists E (trace s) (dir D) \<Longrightarrow>
      prefix (trace s @ [Mkdir (dir D)]) (trace (snd (setup' E D s)))"
    by (simp add: setup_trace)
  have b: "\<not> path_exists E (trace s) (dir D) \<Longrightarrow> fs_raises E (trace s) (Mkdir (dir D)) = None \<Longrightarrow>
      \<not> path_exists E (trace s @ [Mkdir (dir D)]) (df D) \<Longrightarrow>
      prefix (trace s @ [Mkdir (dir D), Copy2 (TMPL E @ ''/Dockerfile.template'') (df D)])
        (trace (snd (setup' E D s)))"
    by (simp add: setup_trace)
  have c: "path_exists E (trace s) (dir D) \<Longrightarrow> \<not> path_exists E (trace s) (df D) \<Longrightarrow>
      prefix (trace s @ [Copy2 (TMPL E @ ''/Dockerfile.template'') (df D)])
        (trace (snd (setup' E D s)))"
    by (simp add: setup_trace)
  have d: "observe E D s = (Inr (ex, rn), s3) \<Longrightarrow>
      trace s3 = trace (snd (setup' E D s)) @ queries D"
    by (rule observe_trace)
  have e: "observe E D s = (Inr (ex, rn), s3) \<Longrightarrow> first_check E D ex rn (checks ex rn) \<noteq> None \<Longrightarrow>
      trace (snd (run E D s)) = trace (snd (setup' E D s)) @ queries D"
    using run_rejected [of E D s ex rn s3] observe_trace [of E D s ex rn s3] by auto
  from p a b c d e show ?thesis
    by (meson prefix_order.trans)
qed

subsection \<open>Concrete runs\<close>

text \<open>
  The theorems above at concrete inputs: the container \<open>web\<close> in worlds
  where it runs, is stopped or is absent, and where chosen commands fail.
\<close>

lemma D_web_fields:
  "name (D_web\<lparr>op := x\<rparr>) = ''web''"
  "op (D_web\<lparr>op := x\<rparr>) = x"
  "ws (D_web\<lparr>op := x\<rparr>) = ''/srv/ws''"
  "df (D_web\<lparr>op := x\<rparr>) = ''/opt/projects/web/Dockerfile''"
  "script (D_web\<lparr>op := x\<rparr>) = Some ''init.sh''"
  "sync_cmd (D_web\<lparr>op := x\<rparr>) = sync_cmd D_web"
  "drop_cmd (D_web\<lparr>op := x\<rparr>) = drop_cmd D_web"
  "build_cmd (D_web\<lparr>op := x\<rparr>) = build_cmd D_web"
  "run_cmd (D_web\<lparr>op := x\<rparr>) = run_cmd D_web"
  "startup_cmd (D_web\<lparr>op := x\<rparr>) = startup_cmd D_web"
  by (simp_all add: D_web_def sync_cmd_def drop_cmd_def build_cmd_def run_cmd_def
      startup_cmd_def)

lemma cmds_distinct:
  "exists_cmd D_web \<noteq> sync_cmd D_web" "running_cmd D_web \<noteq> sync_cmd D_web"
  "exists_cmd D_web \<noteq> drop_cmd D_web" "running_cmd D_web \<noteq> drop_cmd D_web"
  "exists_cmd D_web \<noteq> build_cmd D_web" "running_cmd D_web \<noteq> build_cmd D_web"
  "exists_cmd D_web \<noteq> [''docker'', a, ''web'']" "running_cmd D_web \<noteq> [''docker'', a, ''web'']"
  "sync_cmd D_web \<noteq> drop_cmd D_web"
  "sync_cmd D_web \<noteq> [''docker'', a, ''web'']" "drop_cmd D_web \<noteq> [''docker'', a, ''web'']"
  "build_cmd D_web \<noteq> [''docker'', a, ''web'']"
  "run_cmd D_web \<noteq> [''docker'', a, ''web'']" "startup_cmd D_web \<noteq> [''docker'', a, ''web'']"
  "run_cmd D_web \<noteq> build_cmd D_web" "startup_cmd D_web \<noteq> build_cmd D_web"
  by (simp_all add: exists_cmd_def running_cmd_def sync_cmd_def drop_cmd_def build_cmd_def
      run_cmd_def startup_cmd_def D_web_def)

lemma world_proc:
  "proc (world files failing answering) h cmd check =
     (if cmd \<in> set failing then Inl (CalledProcessError ''non-zero exit status 1'')
      else if cmd \<in> set answering then Inr ''web'' else Inr [])"
  by (simp add: world_def)

lemma world_df: "path_exists (world files_web failing answering) h (df D_web)"
  by (simp add: world_def files_web_def D_web_def)

theorem clean_reports_and_restarts_witness:
  "proc (world_up [sync_cmd D_web]) (queries D_web) (sync_cmd D_web) True =
     Inl (CalledProcessError ''non-zero exit status 1'') \<and>
   trace (snd (run (world_up [sync_cmd D_web]) (D_web\<lparr>op := CLEAN\<rparr>) s0)) =
     queries D_web @ [Subprocess (sync_cmd D_web) True,
                      Subprocess [''docker'', ''restart'', ''web''] True] \<and>
   proc (world_up [drop_cmd D_web]) (queries D_web) (sync_cmd D_web) True = Inr [] \<and>
   proc (world_up [drop_cmd D_web]) (queries D_web @ [Subprocess (sync_cmd D_web) True])
        (drop_cmd D_web) True = Inl (CalledProcessError ''non-zero exit status 1'') \<and>
   trace (snd (run (world_up [drop_cmd D_web]) (D_web\<lparr>op := CLEAN\<rparr>) s0)) =
     queries D_web @ [Subprocess (sync_cmd D_web) True, Subprocess (drop_cmd D_web) True,
                      Subprocess [''docker'', ''restart'', ''web''] True] \<and>
   prefix [''Cache clear failed: non-zero exit status 1'']
     (out (snd (run (world_up [drop_cmd D_web]) (D_web\<lparr>op := CLEAN\<rparr>) s0)))"
proof -
  have a: "observe (world_up [sync_cmd D_web]) (D_web\<lparr>op := CLEAN\<rparr>) s0 =
     (Inr (True, True), \<lparr>trace = queries D_web, out = []\<rparr>)"
    using observe_world [of "[sync_cmd D_web]" "[exists_cmd D_web, running_cmd D_web]" CLEAN]
    by (simp add: world_up_def cmds_distinct)
  have b: "observe (world_up [drop_cmd D_web]) (D_web\<lparr>op := CLEAN\<rparr>) s0 =
     (Inr (True, True), \<lparr>trace = queries D_web, out = []\<rparr>)"
    using observe_world [of "[drop_cmd D_web]" "[exists_cmd D_web, running_cmd D_web]" CLEAN]
    by (simp add: world_up_def cmds_distinct)
  have e: "is_Exception (CalledProcessError ''non-zero exit status 1'')"
    by simp
  have o: "op (D_web\<lparr>op := CLEAN\<rparr>) = CLEAN"
    by simp
  from clean_reports_and_restarts [OF a o e, of "[]"]
       clean_reports_and_restarts [OF b o e, of "[]"]
  show ?thesis
    by (simp add: world_up_def world_proc D_web_fields cmds_distinct cmds_distinct [symmetric])
qed

lemma observe_none:
  "exists_cmd D_web \<notin> set F \<Longrightarrow> running_cmd D_web \<notin> set F \<Longrightarrow>
   observe (world_none F) (D_web\<lparr>op := x\<rparr>) s0 =
     (Inr (False, False), \<lparr>trace = queries D_web, out = []\<rparr>)"
  using observe_world [of F "[]" x] by (simp add: world_none_def)

lemma observe_up:
  "exists_cmd D_web \<notin> set F \<Longrightarrow> running_cmd D_web \<notin> set F \<Longrightarrow>
   observe (world_up F) (D_web\<lparr>op := x\<rparr>) s0 =
     (Inr (True, True), \<lparr>trace = queries D_web, out = []\<rparr>)"
  using observe_world [of F "[exists_cmd D_web, running_cmd D_web]" x]
  by (simp add: world_up_def)

lemma observe_down:
  "exists_cmd D_web \<notin> set F \<Longrightarrow> running_cmd D_web \<notin> set F \<Longrightarrow>
   observe (world_down F) (D_web\<lparr>op := x\<rparr>) s0 =
     (Inr (True, False), \<lparr>trace = queries D_web, out = []\<rparr>)"
  using observe_world [of F "[exists_cmd D_web]" x]
  by (simp add: world_down_def exists_cmd_def running_cmd_def)

lemma world_fs:
  "fs_raises (world files failing answering) h (Makedirs p) = None"
  "fs_raises (world files failing answering) h (Mkdir p) = None"
  by (simp_all add: world_def)

lemma world_df_path:
  "path_exists (world files_web failing answering) h ''/opt/projects/web/Dockerfile''"
  by (simp add: world_def files_web_def)

lemma create_seq_web:
  "create_seq (D_web\<lparr>op := x\<rparr>) =
     [Makedirs ''/srv/ws'', Subprocess (build_cmd D_web) True, Subprocess (run_cmd D_web) True,
      Subprocess (startup_cmd D_web) True]"
  by (simp add: create_seq_def D_web_fields)

lemma create_calls_all:
  "build_cmd D_web \<notin> set F \<Longrightarrow> run_cmd D_web \<notin> set F \<Longrightarrow> startup_cmd D_web \<notin> set F \<Longrightarrow>
   create_calls (world files_web F A) (D_web\<lparr>op := x\<rparr>) h = create_seq (D_web\<lparr>op := x\<rparr>)"
  by (simp add: create_calls_def create_seq_web world_proc world_fs world_df_path D_web_fields)

theorem create_sequence_witness:
  "observe (world_none []) D_web s0 =
     (Inr (False, False), \<lparr>trace = queries D_web, out = []\<rparr>) \<and>
   op D_web = CREATE \<and>
   path_exists (world_none []) (queries D_web) (df D_web) \<and>
   all_ok (world_none []) (queries D_web) (create_seq D_web) \<and>
   trace (snd (run (world_none []) D_web s0)) =
     queries D_web @
     [Makedirs ''/srv/ws'',
      Subprocess [''docker'', ''build'', ''--build-arg'', ''USERNAME=alice'',
        ''--build-arg'', ''USER_PASSWORD=secret'', ''-t'', ''web'',
        ''-f'', ''/opt/projects/web/Dockerfile'', ''/opt/projects/web''] True,
      Subprocess (run_cmd D_web) True,
      Subprocess [''docker'', ''exec'', ''web'', ''bash'', ''-c'',
                  ''cd /home/alice/workspace && ./init.sh''] True] \<and>
   \<not> call_ok (world_none [build_cmd D_web]) (queries D_web @ [Makedirs (ws D_web)])
       (Subprocess (build_cmd D_web) True) \<and>
   trace (snd (run (world_none [build_cmd D_web]) D_web s0)) =
     queries D_web @
     [Makedirs ''/srv/ws'',
      Subprocess [''docker'', ''build'', ''--build-arg'', ''USERNAME=alice'',
        ''--build-arg'', ''USER_PASSWORD=secret'', ''-t'', ''web'',
        ''-f'', ''/opt/projects/web/Dockerfile'', ''/opt/projects/web''] True]"
proof -
  have d: "D_web\<lparr>op := CREATE\<rparr> = D_web"
    by (simp add: D_web_def)
  have a: "observe (world_none []) D_web s0 =
     (Inr (False, False), \<lparr>trace = queries D_web, out = []\<rparr>)"
    using observe_none [of "[]" CREATE] by (simp add: d)
  have b: "observe (world_none [build_cmd D_web]) D_web s0 =
     (Inr (False, False), \<lparr>trace = queries D_web, out = []\<rparr>)"
    using observe_none [of "[build_cmd D_web]" CREATE] by (simp add: d cmds_distinct)
  have o: "op D_web = CREATE"
    by (simp add: D_web_def)
  have k: "build_cmd D_web =
     [''docker'', ''build'', ''--build-arg'', ''USERNAME=alice'',
      ''--build-arg'', ''USER_PASSWORD=secret'', ''-t'', ''web'',
      ''-f'', ''/opt/projects/web/Dockerfile'', ''/opt/projects/web'']"
    by (simp add: build_cmd_def D_web_def)
  have w: "ws D_web = ''/srv/ws''" "name D_web = ''web''" "user D_web = ''alice''"
    "script D_web = Some ''init.sh''" "pwd D_web = ''secret''"
    "df D_web = ''/opt/projects/web/Dockerfile''" "dir D_web = ''/opt/projects/web''"
    by (simp_all add: D_web_def)
  from create_sequence [OF a o] create_sequence [OF b o] a o
  show ?thesis
    using create_seq_web [of CREATE]
    by (simp add: d w k [symmetric] world_none_def world_proc world_fs world_df_path
        cmds_distinct cmds_distinct [symmetric] startup_cmd_def)
qed

lemma D_web_create: "D_web\<lparr>op := CREATE\<rparr> = D_web"
  by (simp add: D_web_def)

lemma create_seq_op: "create_seq (D_web\<lparr>op := x\<rparr>) = create_seq D_web"
  using create_seq_web [of x] create_seq_web [of CREATE] by (simp add: D_web_create)

lemma create_calls_web:
  "build_cmd D_web \<notin> set F \<Longrightarrow> run_cmd D_web \<notin> set F \<Longrightarrow> startup_cmd D_web \<notin> set F \<Longrightarrow>
   create_calls (world files_web F A) (D_web\<lparr>op := x\<rparr>) h = create_seq D_web"
  by (simp add: create_calls_all create_seq_op)

theorem recreate_sequence_witness:
  "observe (world_up []) (D_web\<lparr>op := RESET\<rparr>) s0 =
     (Inr (True, True), \<lparr>trace = queries D_web, out = []\<rparr>) \<and>
   call_ok (world_up []) (queries D_web) (Subprocess [''docker'', ''stop'', ''web''] True) \<and>
   trace (snd (run (world_up []) (D_web\<lparr>op := RESET\<rparr>) s0)) =
     queries D_web @ [Subprocess [''docker'', ''stop'', ''web''] True] @ create_seq D_web \<and>
   observe (world_down []) (D_web\<lparr>op := RESET\<rparr>) s0 =
     (Inr (True, False), \<lparr>trace = queries D_web, out = []\<rparr>) \<and>
   call_ok (world_down []) (queries D_web) (Subprocess [''docker'', ''rm'', ''web''] True) \<and>
   trace (snd (run (world_down []) (D_web\<lparr>op := RESET\<rparr>) s0)) =
     queries D_web @ [Subprocess [''docker'', ''rm'', ''web''] True] @ create_seq D_web \<and>
   observe (world_none []) (D_web\<lparr>op := RESET\<rparr>) s0 =
     (Inr (False, False), \<lparr>trace = queries D_web, out = []\<rparr>) \<and>
   trace (snd (run (world_none []) (D_web\<lparr>op := RESET\<rparr>) s0)) =
     queries D_web @ create_seq D_web \<and>
   \<not> all_ok (world_up [[''docker'', ''stop'', ''web'']]) (queries D_web)
       (teardown_calls (D_web\<lparr>op := RESET\<rparr>) True True) \<and>
   trace (snd (run (world_up [[''docker'', ''stop'', ''web'']]) (D_web\<lparr>op := RESET\<rparr>) s0)) =
     queries D_web @ [Subprocess [''docker'', ''stop'', ''web''] True]"
proof -
  have o: "op (D_web\<lparr>op := RESET\<rparr>) = RESET"
    by simp
  have u: "observe (world_up []) (D_web\<lparr>op := RESET\<rparr>) s0 =
     (Inr (True, True), \<lparr>trace = queries D_web, out = []\<rparr>)"
    by (simp add: observe_up)
  have d: "observe (world_down []) (D_web\<lparr>op := RESET\<rparr>) s0 =
     (Inr (True, False), \<lparr>trace = queries D_web, out = []\<rparr>)"
    by (simp add: observe_down)
  have n: "observe (world_none []) (D_web\<lparr>op := RESET\<rparr>) s0 =
     (Inr (False, False), \<lparr>trace = queries D_web, out = []\<rparr>)"
    by (simp add: observe_none)
  have f: "observe (world_up [[''docker'', ''stop'', ''web'']]) (D_web\<lparr>op := RESET\<rparr>) s0 =
     (Inr (True, True), \<lparr>trace = queries D_web, out = []\<rparr>)"
    by (simp add: observe_up cmds_distinct)
  from recreate_sequence [OF u o] recreate_sequence [OF d o] recreate_sequence [OF n o]
       recreate_sequence [OF f o] u d n
  show ?thesis
    by (simp add: D_web_fields teardown_calls_def world_up_def world_down_def world_none_def
        world_proc create_calls_trace create_calls_web cmds_distinct cmds_distinct [symmetric])
qed

theorem full_rebuild_sequence_witness:
  "observe (world_up []) (D_web\<lparr>op := NUKE\<rparr>) s0 =
     (Inr (True, True), \<lparr>trace = queries D_web, out = []\<rparr>) \<and>
   all_ok (world_up []) (queries D_web) (teardown_calls (D_web\<lparr>op := NUKE\<rparr>) True True) \<and>
   trace (snd (run (world_up []) (D_web\<lparr>op := NUKE\<rparr>) s0)) =
     queries D_web @
     [Subprocess [''docker'', ''stop'', ''web''] True,
      Subprocess [''docker'', ''rmi'', ''web''] True] @ create_seq D_web \<and>
   observe (world_none [[''docker'', ''rmi'', ''web'']]) (D_web\<lparr>op := NUKE\<rparr>) s0 =
     (Inr (False, False), \<lparr>trace = queries D_web, out = []\<rparr>) \<and>
   \<not> call_ok (world_none [[''docker'', ''rmi'', ''web'']]) (queries D_web)
       (rmi_call (D_web\<lparr>op := NUKE\<rparr>)) \<and>
   trace (snd (run (world_none [[''docker'', ''rmi'', ''web'']]) (D_web\<lparr>op := NUKE\<rparr>) s0)) =
     queries D_web @ [Subprocess [''docker'', ''rmi'', ''web''] True]"
proof -
  have o: "op (D_web\<lparr>op := NUKE\<rparr>) = NUKE"
    by simp
  have u: "observe (world_up []) (D_web\<lparr>op := NUKE\<rparr>) s0 =
     (Inr (True, True), \<lparr>trace = queries D_web, out = []\<rparr>)"
    by (simp add: observe_up)
  have n: "observe (world_none [[''docker'', ''rmi'', ''web'']]) (D_web\<lparr>op := NUKE\<rparr>) s0 =
     (Inr (False, False), \<lparr>trace = queries D_web, out = []\<rparr>)"
    by (simp add: observe_none cmds_distinct)
  have a: "all_ok (world_up []) (trace \<lparr>trace = queries D_web, out = []\<rparr>)
             (teardown_calls (D_web\<lparr>op := NUKE\<rparr>) True True)"
    by (simp add: teardown_calls_def world_up_def world_proc)
  have b: "all_ok (world_none [[''docker'', ''rmi'', ''web'']])
             (trace \<lparr>trace = queries D_web, out = []\<rparr>)
             (teardown_calls (D_web\<lparr>op := NUKE\<rparr>) False False)"
    by (simp add: teardown_calls_def)
  from full_rebuild_sequence [OF u o a] full_rebuild_sequence [OF n o b] u n a
  show ?thesis
    by (simp add: D_web_fields teardown_calls_def rmi_call_def world_up_def world_none_def
        world_proc create_calls_trace create_calls_web cmds_distinct cmds_distinct [symmetric])
qed

theorem setup_before_validation_witness:
  "\<not> path_exists world_fresh (trace s0) (dir (D_web\<lparr>op := START\<rparr>)) \<and>
   fs_raises world_fresh (trace s0) (Mkdir (dir (D_web\<lparr>op := START\<rparr>))) = None \<and>
   \<not> path_exists world_fresh (trace s0 @ [Mkdir (dir (D_web\<lparr>op := START\<rparr>))])
       (df (D_web\<lparr>op := START\<rparr>)) \<and>
   observe world_fresh (D_web\<lparr>op := START\<rparr>) s0 =
     (Inr (False, False),
      \<lparr>trace = [Mkdir ''/opt/projects/web'',
                 Copy2 ''/opt/drun/templates/Dockerfile.template''
                   ''/opt/projects/web/Dockerfile''] @ queries D_web,
       out = []\<rparr>) \<and>
   first_check world_fresh (D_web\<lparr>op := START\<rparr>) False False (checks False False) \<noteq> None \<and>
   trace (snd (run world_fresh (D_web\<lparr>op := START\<rparr>) s0)) =
     [Mkdir ''/opt/projects/web'',
      Copy2 ''/opt/drun/templates/Dockerfile.template'' ''/opt/projects/web/Dockerfile'']
     @ queries D_web"
proof -
  have f: "dir (D_web\<lparr>op := START\<rparr>) = ''/opt/projects/web''"
    "df (D_web\<lparr>op := START\<rparr>) = ''/opt/projects/web/Dockerfile''"
    "debug (D_web\<lparr>op := START\<rparr>) = 0" "name (D_web\<lparr>op := START\<rparr>) = ''web''"
    "op (D_web\<lparr>op := START\<rparr>) = START"
    by (simp_all add: D_web_def)
  have q: "exists_cmd (D_web\<lparr>op := START\<rparr>) = exists_cmd D_web"
    "running_cmd (D_web\<lparr>op := START\<rparr>) = running_cmd D_web"
    by (simp_all add: exists_cmd_def running_cmd_def)
  have t: "TMPL world_fresh = ''/opt/drun/templates''"
    by (simp add: world_fresh_def world_def)
  have p: "\<not> path_exists world_fresh [] ''/opt/projects/web''"
    "\<not> path_exists world_fresh [Mkdir ''/opt/projects/web''] ''/opt/projects/web/Dockerfile''"
    "fs_raises world_fresh [] (Mkdir ''/opt/projects/web'') = None"
    "fs_raises world_fresh [Mkdir ''/opt/projects/web'']
       (Copy2 ''/opt/drun/templates/Dockerfile.template'' ''/opt/projects/web/Dockerfile'') = None"
    by (simp_all add: world_fresh_def world_def)
  have r: "proc world_fresh h cmd check = Inr []" for h cmd check
    by (simp add: world_fresh_def world_def)
  have o: "observe world_fresh (D_web\<lparr>op := START\<rparr>) s0 =
     (Inr (False, False),
      \<lparr>trace = [Mkdir ''/opt/projects/web'',
                 Copy2 ''/opt/drun/templates/Dockerfile.template''
                   ''/opt/projects/web/Dockerfile''] @ queries D_web,
       out = []\<rparr>)"
    by (simp add: observe_def setup'_def bind_def return_def exists_path_def fs_call_def dbg_def
        exists_eq running_eq f q t p r s0_def queries_def)
  have s: "trace (snd (setup' world_fresh (D_web\<lparr>op := START\<rparr>) s0)) =
     [Mkdir ''/opt/projects/web'',
      Copy2 ''/opt/drun/templates/Dockerfile.template'' ''/opt/projects/web/Dockerfile'']"
    by (simp add: setup_trace f t p s0_def)
  have c: "first_check world_fresh (D_web\<lparr>op := START\<rparr>) False False (checks False False)
             \<noteq> None"
    using first_check_table [of world_fresh "D_web\<lparr>op := START\<rparr>" False False]
    by (simp only: f Op.case simp_thms)
  from setup_before_validation [of world_fresh "D_web\<lparr>op := START\<rparr>" s0 False False
         "\<lparr>trace = [Mkdir ''/opt/projects/web'',
                 Copy2 ''/opt/drun/templates/Dockerfile.template''
                   ''/opt/projects/web/Dockerfile''] @ queries D_web,
          out = []\<rparr>"] o c s
  show ?thesis
    by (simp add: f p q s0_def queries_def)
qed

theorem run_cmd_arguments_witness:
  "Suc 0 < length (ports D_web) \<and>
   run_cmd D_web ! 5 = ''-p'' \<and> run_cmd D_web ! 6 = ''8080:80'' \<and>
   run_cmd D_web ! 7 = ''-p'' \<and> run_cmd D_web ! 8 = ''2222:22'' \<and>
   \<not> root D_web \<and>
   ports D_web = [(8080, 80), (2222, 22)] \<and>
   take 4 (drop 5 (run_cmd D_web)) = [''-p'', ''8080:80'', ''-p'', ''2222:22''] \<and>
   run_cmd D_web ! 9 = ''-v'' \<and> run_cmd D_web ! 10 = ''/srv/ws:/home/alice/workspace'' \<and>
   run_cmd D_web ! 11 = ''-u'' \<and> run_cmd D_web ! 12 = ''alice'' \<and>
   length (run_cmd D_web) = 14 \<and>
   root (D_web\<lparr>root := True\<rparr>) \<and>
   length (run_cmd (D_web\<lparr>root := True\<rparr>)) = 12 \<and>
   run_cmd (D_web\<lparr>root := True\<rparr>) ! 11 = ''web''"
proof -
  have p: "ports D_web = [(8080, 80), (2222, 22)]" "\<not> root D_web"
    "ws D_web = ''/srv/ws''" "user D_web = ''alice''" "name D_web = ''web''"
    by (simp_all add: D_web_def)
  have q: "ports (D_web\<lparr>root := True\<rparr>) = [(8080, 80), (2222, 22)]"
    "name (D_web\<lparr>root := True\<rparr>) = ''web''"
    by (simp_all add: D_web_def)
  have n: "str_int 8080 = ''8080''" "str_int 80 = ''80''"
    "str_int 2222 = ''2222''" "str_int 22 = ''22''"
    by (simp_all add: str_int_def str_nat.simps digit_char_def)
  from run_cmd_arguments [of D_web] run_cmd_arguments [of "D_web\<lparr>root := True\<rparr>"]
  show ?thesis
    by (simp add: p q n All_less_Suc)
qed

end
